theory Spec2Isabelle
  imports Complex_Main "HOL-Library.AList"
begin

section \<open>Python values and strings\<close>

text \<open>
  A Python \<open>str\<close> is modelled as a \<open>string\<close> whose characters are the code points
  below 256 (ASCII and the Latin-1 supplement).  The character classes below are the
  ones Python uses on that range: \<open>str.isspace\<close> (which is also \<open>\s\<close> of the \<open>re\<close>
  module, and what \<open>str.split()\<close> and \<open>str.strip()\<close> take as whitespace) and
  \<open>str.isalnum\<close> or underscore (which is \<open>\w\<close>).
\<close>

definition is_space :: "char \<Rightarrow> bool" where
  "is_space c =
     (let n = (of_char c :: nat)
      in (9 \<le> n \<and> n \<le> 13) \<or> (28 \<le> n \<and> n \<le> 32) \<or> n = 133 \<or> n = 160)"

definition is_word :: "char \<Rightarrow> bool" where
  "is_word c =
     (let n = (of_char c :: nat)
      in (48 \<le> n \<and> n \<le> 57) \<or> (65 \<le> n \<and> n \<le> 90) \<or> n = 95 \<or> (97 \<le> n \<and> n \<le> 122)
         \<or> n = 170 \<or> n = 178 \<or> n = 179 \<or> n = 181 \<or> n = 185 \<or> n = 186
         \<or> (188 \<le> n \<and> n \<le> 190) \<or> (192 \<le> n \<and> n \<le> 214)
         \<or> (216 \<le> n \<and> n \<le> 246) \<or> (248 \<le> n \<and> n \<le> 255))"

text \<open>\<open>sep.join(xs)\<close>.\<close>

fun join :: "string \<Rightarrow> string list \<Rightarrow> string" where
  "join sep [] = []"
| "join sep [x] = x"
| "join sep (x # y # ys) = x @ sep @ join sep (y # ys)"

text \<open>
  \<open>text.split()\<close> with no argument: the maximal runs of non-whitespace characters, in
  order; \<open>w\<close> holds the run being read, reversed.
\<close>

fun split_acc :: "string \<Rightarrow> string \<Rightarrow> string list" where
  "split_acc w [] = (if w = [] then [] else [rev w])"
| "split_acc w (c # cs) =
     (if is_space c
      then (if w = [] then split_acc [] cs else rev w # split_acc [] cs)
      else split_acc (c # w) cs)"

definition split :: "string \<Rightarrow> string list" where
  "split text = split_acc [] text"

text \<open>\<open>text.strip()\<close>.\<close>

definition strip :: "string \<Rightarrow> string" where
  "strip text = rev (dropWhile is_space (rev (dropWhile is_space text)))"

section \<open>The text normalizer (store.py, \<open>clean_text\<close>)\<close>

text \<open>
  \<open>re.sub(pattern, repl, text)\<close> scans the text from left to right.  At each position it
  tries to match the pattern there; a match is replaced and the scan goes on behind the
  match, otherwise the character is copied and the scan moves one position on.
  The pattern and its replacement are given as a function that, applied to the text
  from the current position, returns the replacement and the text behind the match.
  None of the patterns of \<open>clean_text\<close> matches the empty string.
\<close>

function re_sub :: "(string \<Rightarrow> (string \<times> string) option) \<Rightarrow> string \<Rightarrow> string" where
  "re_sub m [] = []"
| "re_sub m (c # cs) =
     (case m (c # cs) of
        None \<Rightarrow> c # re_sub m cs
      | Some (rep, rest) \<Rightarrow>
          if length rest < Suc (length cs) then rep @ re_sub m rest else c # re_sub m cs)"
  by pat_completeness auto
termination
  by (relation "measure (\<lambda>(m, s). length s)") auto

text \<open>
  \<open>(\w+)-\s+(\w+)\<close> replaced by \<open>\1\2\<close>.  Each of \<open>\w+\<close> and \<open>\s+\<close> is greedy; a shorter
  run never helps, because the character that must follow (\<open>-\<close>, respectively a word
  character) is not in the class of the run.
\<close>

definition pat_hyphen :: "string \<Rightarrow> (string \<times> string) option" where
  "pat_hyphen s =
     (let w1 = takeWhile is_word s; r1 = dropWhile is_word s
      in if w1 = [] then None
         else (case r1 of
                 [] \<Rightarrow> None
               | h # r2 \<Rightarrow>
                   if h \<noteq> CHR ''-'' then None
                   else (let sp = takeWhile is_space r2; r3 = dropWhile is_space r2
                         in if sp = [] then None
                            else (let w2 = takeWhile is_word r3; r4 = dropWhile is_word r3
                                  in if w2 = [] then None else Some (w1 @ w2, r4)))))"

definition is_punct :: "char \<Rightarrow> bool" where
  "is_punct c = (c \<in> set ''.,;:!?'')"

text \<open>\<open>[^\w\s.,;:!?\-]\<close>, and \<open>[^\w\s.,;:!?\-$%@#&+*=<>/]\<close>, replaced by a space.\<close>

definition pat_special :: "string \<Rightarrow> (string \<times> string) option" where
  "pat_special s =
     (case s of
        [] \<Rightarrow> None
      | c # cs \<Rightarrow>
          if is_word c \<or> is_space c \<or> c \<in> set ''.,;:!?-'' then None else Some ('' '', cs))"

definition pat_special_preserve :: "string \<Rightarrow> (string \<times> string) option" where
  "pat_special_preserve s =
     (case s of
        [] \<Rightarrow> None
      | c # cs \<Rightarrow>
          if is_word c \<or> is_space c \<or> c \<in> set ''.,;:!?-$%@#&+*=<>/'' then None
          else Some ('' '', cs))"

text \<open>\<open>\s+([.,;:!?])\<close> replaced by \<open>\1\<close>.\<close>

definition pat_space_punct :: "string \<Rightarrow> (string \<times> string) option" where
  "pat_space_punct s =
     (if takeWhile is_space s = [] then None
      else (case dropWhile is_space s of
              [] \<Rightarrow> None
            | p # r \<Rightarrow> if is_punct p then Some ([p], r) else None))"

text \<open>\<open>([.,;:!?])(?!\s)\<close> replaced by \<open>\1\<close> and a space; the lookahead also holds at the end.\<close>

definition pat_punct_nospace :: "string \<Rightarrow> (string \<times> string) option" where
  "pat_punct_nospace s =
     (case s of
        [] \<Rightarrow> None
      | p # r \<Rightarrow>
          if is_punct p \<and> (case r of [] \<Rightarrow> True | c # _ \<Rightarrow> \<not> is_space c)
          then Some ([p, CHR '' ''], r) else None)"

text \<open>\<open>\s+\<close> replaced by one space.\<close>

definition pat_spaces :: "string \<Rightarrow> (string \<times> string) option" where
  "pat_spaces s =
     (if takeWhile is_space s = [] then None else Some ('' '', dropWhile is_space s))"

definition clean_text :: "string \<Rightarrow> bool \<Rightarrow> string" where
  "clean_text text preserve_special_chars =
     (if text = [] then []
      else
        (let t1 = join '' '' (split text);
             t2 = re_sub pat_hyphen t1;
             t3 = (if preserve_special_chars then re_sub pat_special_preserve t2
                   else re_sub pat_special t2);
             t4 = re_sub pat_space_punct t3;
             t5 = re_sub pat_punct_nospace t4;
             t6 = re_sub pat_spaces t5
         in strip t6))"

section \<open>Values, exceptions and documents\<close>

text \<open>
  The values a metadata field holds: \<open>None\<close>, a bool, an int or a str.  \<open>truthy\<close> is
  Python's truth test, \<open>py_or\<close> is \<open>a or b\<close>, and \<open>py_str\<close> is what an f-string renders.
\<close>

datatype pyval = PNone | PBool bool | PInt int | PStr string

fun truthy :: "pyval \<Rightarrow> bool" where
  "truthy PNone = False"
| "truthy (PBool b) = b"
| "truthy (PInt i) = (i \<noteq> 0)"
| "truthy (PStr s) = (s \<noteq> [])"

definition py_or :: "pyval \<Rightarrow> pyval \<Rightarrow> pyval" where
  "py_or a b = (if truthy a then a else b)"

definition digit_char :: "nat \<Rightarrow> char" where
  "digit_char d = char_of (48 + d)"

fun str_nat :: "nat \<Rightarrow> string" where
  "str_nat n = (if n < 10 then [digit_char n] else str_nat (n div 10) @ [digit_char (n mod 10)])"

declare str_nat.simps [simp del]

definition str_int :: "int \<Rightarrow> string" where
  "str_int i = (if i < 0 then CHR ''-'' # str_nat (nat (- i)) else str_nat (nat i))"

fun py_str :: "pyval \<Rightarrow> string" where
  "py_str PNone = ''None''"
| "py_str (PBool b) = (if b then ''True'' else ''False'')"
| "py_str (PInt i) = str_int i"
| "py_str (PStr s) = s"

text \<open>An exception carries its message; \<open>str(e)\<close> reads it.\<close>

datatype exn = ValueError string | TypeError string | OtherError string

fun exn_str :: "exn \<Rightarrow> string" where
  "exn_str (ValueError m) = m"
| "exn_str (TypeError m) = m"
| "exn_str (OtherError m) = m"

text \<open>
  A langchain \<open>Document\<close>.  Its metadata is a dict, kept as an association list in
  insertion order: \<open>map_of\<close> looks a key up and \<open>AList.update\<close> is the assignment
  \<open>d[k] = v\<close> (the value is replaced where the key is, a new key goes to the end).
\<close>

record document =
  page_content :: string
  metadata :: "(string \<times> pyval) list"

definition dict_get :: "(string \<times> pyval) list \<Rightarrow> string \<Rightarrow> pyval \<Rightarrow> pyval" where
  "dict_get d k dflt = (case map_of d k of None \<Rightarrow> dflt | Some v \<Rightarrow> v)"

section \<open>Numbered context and citation mapping (main.py, \<open>get_relevant_documents\<close>)\<close>

text \<open>\<open>"\{empty\}"\<close>: the backslashes are not escapes in Python and stay in the string.\<close>

definition empty_context :: string where
  "empty_context = [CHR 0x5C] @ ''{empty'' @ [CHR 0x5C] @ ''}''"

text \<open>\<open>f"[{i+1}]"\<close> and \<open>f"[{i+1}] {doc.page_content}"\<close>.\<close>

definition citation_label :: "nat \<Rightarrow> string" where
  "citation_label i = ''['' @ str_nat (i + 1) @ '']''"

definition context_entry :: "nat \<times> document \<Rightarrow> string" where
  "context_entry p = (case p of (i, doc) \<Rightarrow> citation_label i @ '' '' @ page_content doc)"

text \<open>
  \<open>page + 1\<close>: an int is incremented, a bool counts as 0 or 1, a str raises
  \<open>TypeError\<close>.  The caller has excluded \<open>None\<close>.
\<close>

fun page_plus_one :: "pyval \<Rightarrow> exn + pyval" where
  "page_plus_one (PInt p) = Inr (PInt (p + 1))"
| "page_plus_one (PBool b) = Inr (PInt ((if b then 1 else 0) + 1))"
| \<open>page_plus_one (PStr s) = Inl (TypeError ''can only concatenate str (not "int") to str'')\<close>
| "page_plus_one PNone = Inl (TypeError ''unsupported operand type(s) for +'')"

text \<open>The body of the second loop of \<open>get_relevant_documents\<close>: the descriptor of one chunk.\<close>

definition source_descriptor :: "document \<Rightarrow> exn + string" where
  "source_descriptor doc =
     (let title = py_or (dict_get (metadata doc) ''title'' PNone)
                        (dict_get (metadata doc) ''source_file'' (PStr ''Unknown Source''));
          page = dict_get (metadata doc) ''page'' PNone
      in if page \<noteq> PNone
         then (case page_plus_one page of
                 Inl e \<Rightarrow> Inl e
               | Inr p1 \<Rightarrow> Inr (py_str title @ '' (page '' @ py_str p1 @ '')''))
         else Inr (py_str title))"

fun build_sources ::
  "(nat \<times> document) list \<Rightarrow> (string \<times> string) list \<Rightarrow> exn + (string \<times> string) list" where
  "build_sources [] sources = Inr sources"
| "build_sources ((i, doc) # rest) sources =
     (case source_descriptor doc of
        Inl e \<Rightarrow> Inl e
      | Inr d \<Rightarrow> build_sources rest (AList.update (citation_label i) d sources))"

text \<open>
  What \<open>get_relevant_documents\<close> makes of the chunks the similarity search returned
  (from \<open>if not docs\<close> to the \<open>return\<close>).
\<close>

definition numbered_context :: "document list \<Rightarrow> string" where
  "numbered_context docs = join ''\<newline>'' (map context_entry (enumerate 0 docs))"

definition cite_documents :: "document list \<Rightarrow> exn + string \<times> (string \<times> string) list" where
  "cite_documents docs =
     (if docs = [] then Inr (empty_context, [])
      else (let context = numbered_context docs
            in case build_sources (enumerate 0 docs) [] of
                 Inl e \<Rightarrow> Inl e
               | Inr sources \<Rightarrow> Inr (context, sources)))"

text \<open>\<open>"\n".join(f"{k} {v}" for k, v in sources.items())\<close>.\<close>

definition sources_block :: "(string \<times> string) list \<Rightarrow> string" where
  "sources_block sources = join ''\<newline>'' (map (\<lambda>(k, v). k @ '' '' @ v) sources)"

section \<open>The vector store and the other external services\<close>

text \<open>
  The vector store holds, under each index name, the documents written to that index, in
  the order of writing; a name with no index maps to \<open>None\<close>.  A handle is bound to one
  index name, and a search or a write through a handle concerns that index alone.
\<close>

type_synonym store = "string \<Rightarrow> document list option"

text \<open>
  A fragment of the model's output stream; \<open>getattr(chunk, "content", str(chunk))\<close> reads
  the \<open>content\<close> attribute when there is one and renders the fragment otherwise.
\<close>

datatype llm_chunk = Message string | Plain string

fun chunk_content :: "llm_chunk \<Rightarrow> string" where
  "chunk_content (Message c) = c"
| "chunk_content (Plain s) = s"

text \<open>A JSON value, and the outcome of the POST request to the embedding endpoint.\<close>

datatype json = JNull | JBool bool | JNum real | JStr string | JArr "json list"
  | JObj "(string \<times> json) list"

datatype http_outcome =
    RequestException string
  | PostError string
  | Response int string "string + json"

text \<open>
  The behaviour of the services the code calls and does not contain.  Each is a function
  of what it is given, so that a theorem about every \<open>world\<close> holds whatever these
  services do:
  \<^item> \<open>path_suffix\<close> is \<open>Path(filename).suffix.lower()\<close>;
  \<^item> the three loaders read the uploaded bytes and return documents or raise;
  \<open>split_documents\<close> is the text splitter;
  \<^item> \<open>index_check_ok\<close> and \<open>index_create_ok\<close> say whether the HEAD request and the PUT
    request for an index name go through;
  \<^item> \<open>similarity_search\<close> ranks the content of one index for a query and a limit \<open>k\<close>,
    or raises; \<open>add_documents_error\<close> is the exception a write raises, if any;
  \<^item> \<open>astream\<close> is the model's stream for a prompt: fragments, ended by the end of
    the list or by the first exception;
  \<^item> \<open>embeddings_post\<close> is the outcome of the embedding request for a prompt text
    (\<open>Response\<close> carries the status code, the body text and what \<open>response.json()\<close>
    gives: the parsed value, or the message of the decoding error).
\<close>

record world =
  path_suffix :: "string \<Rightarrow> string"
  pdf_loader :: "string \<Rightarrow> exn + document list"
  text_loader :: "string \<Rightarrow> exn + document list"
  dedoc_loader :: "string \<Rightarrow> exn + document list"
  split_documents :: "document list \<Rightarrow> document list"
  index_check_ok :: "string \<Rightarrow> bool"
  index_create_ok :: "string \<Rightarrow> bool"
  similarity_search :: "document list option \<Rightarrow> string \<Rightarrow> nat \<Rightarrow> exn + document list"
  add_documents_error :: "store \<Rightarrow> string \<Rightarrow> document list \<Rightarrow> exn option"
  astream :: "string \<Rightarrow> (exn + llm_chunk) list"
  embeddings_post :: "string \<Rightarrow> http_outcome"

text \<open>
  \<open>vector_store.add_documents(docs)\<close> on the handle of \<open>index_name\<close>: the documents are
  appended to that index (which the client creates when it is missing), or the write
  raises and the index stays as it was.
\<close>

definition add_documents :: "world \<Rightarrow> store \<Rightarrow> string \<Rightarrow> document list \<Rightarrow> exn + store" where
  "add_documents w st index_name docs =
     (case add_documents_error w st index_name docs of
        Some e \<Rightarrow> Inl e
      | None \<Rightarrow>
          Inr (st(index_name \<mapsto> (case st index_name of None \<Rightarrow> [] | Some ds \<Rightarrow> ds) @ docs)))"

section \<open>Tenant index registry (store.py)\<close>

text \<open>
  \<open>create_index_if_not_exists\<close>: the HEAD request answers 200 when the index exists and
  the request goes through, and the function returns.  Otherwise the PUT request is
  sent; it creates the index when there is none and the request goes through.  Every
  failure is logged and swallowed, so the function never raises.
\<close>

definition create_index_if_not_exists :: "world \<Rightarrow> store \<Rightarrow> string \<Rightarrow> store" where
  "create_index_if_not_exists w st index_name =
     (if st index_name \<noteq> None \<and> index_check_ok w index_name then st
      else if st index_name = None \<and> index_create_ok w index_name then st(index_name \<mapsto> [])
      else st)"

definition doc_index_name :: "string \<Rightarrow> string" where
  "doc_index_name tenant_id = ''doc_'' @ tenant_id"

definition chat_history_index_name :: "string \<Rightarrow> string" where
  "chat_history_index_name tenant_id = ''chat_history_'' @ tenant_id"

text \<open>Both return the store after the index check and the handle, that is the index name.\<close>

definition get_doc_vector_store :: "world \<Rightarrow> store \<Rightarrow> string \<Rightarrow> store \<times> string" where
  "get_doc_vector_store w st tenant_id =
     (let index_name = doc_index_name tenant_id
      in (create_index_if_not_exists w st index_name, index_name))"

definition get_chat_history_vector_store :: "world \<Rightarrow> store \<Rightarrow> string \<Rightarrow> store \<times> string" where
  "get_chat_history_vector_store w st tenant_id =
     (let index_name = chat_history_index_name tenant_id
      in (create_index_if_not_exists w st index_name, index_name))"

section \<open>Retrieval-augmented answer pipeline (main.py)\<close>

definition prompt_format :: "string \<Rightarrow> string \<Rightarrow> string \<Rightarrow> string \<Rightarrow> string" where
  \<open>prompt_format context srcs chat_history question =
     ''\<newline>''
     @ ''<|SYSTEM|>\<newline>''
     @ ''You are a precise RAG assistant. Your sole task is to answer the user's `<QUESTION>` using ONLY the provided `<CONTEXT>`.\<newline>''
     @ ''\<newline>''
     @ ''## Your Rules:\<newline>''
     @ ''1.  **Strictly Grounded:** Base every single statement in your answer on the provided text. NEVER use external knowledge or make assumptions.\<newline>''
     @ ''2.  **Cite Everything:** You MUST add a citation `[1]` or `[3][5]` after every piece of information. The citation goes *before* the punctuation.\<newline>''
     @ ''3.  **List Your Sources:** After the answer, you MUST provide a `Sources:` list, citing the full title of each source you used.\<newline>''
     @ ''4.  **Be Direct:** Do not add any conversational preamble. Start directly with the answer.\<newline>''
     @ ''5.  **Handle No Information Politely:** If the context does not contain the answer, you MUST respond with the exact phrase: "I'm sorry, but I couldn't find the information needed to answer your question in the provided documents."\<newline>''
     @ ''\<newline>''
     @ ''<|USER|>\<newline>''
     @ ''<CONTEXT>\<newline>''
     @ context
     @ ''\<newline>''
     @ ''</CONTEXT>\<newline>''
     @ ''\<newline>''
     @ ''<SOURCES_BLOCK>\<newline>''
     @ srcs
     @ ''\<newline>''
     @ ''</SOURCES_BLOCK>\<newline>''
     @ ''\<newline>''
     @ ''<CHAT_HISTORY>\<newline>''
     @ chat_history
     @ ''\<newline>''
     @ ''</CHAT_HISTORY>\<newline>''
     @ ''\<newline>''
     @ ''<QUESTION>\<newline>''
     @ question
     @ ''\<newline>''
     @ ''</QUESTION>\<newline>''
     @ ''\<newline>''
     @ ''<|SYSTEM|>\<newline>''\<close>

definition ensure_indexes_exist :: "world \<Rightarrow> store \<Rightarrow> string \<Rightarrow> store" where
  "ensure_indexes_exist w st tenant_id =
     (let (st1, doc_vector_store) = get_doc_vector_store w st tenant_id;
          (st2, chat_history_vector_store) = get_chat_history_vector_store w st1 tenant_id
      in st2)"

definition no_history :: string where
  "no_history = ''No relevant previous conversation history available.''"

definition get_relevant_history :: "world \<Rightarrow> store \<Rightarrow> string \<Rightarrow> string \<Rightarrow> nat \<Rightarrow> store \<times> string" where
  "get_relevant_history w st query tenant_id k =
     (let (st1, chat_history_vector_store) = get_chat_history_vector_store w st tenant_id
      in case similarity_search w (st1 chat_history_vector_store) query k of
           Inl e \<Rightarrow> (st1, no_history)
         | Inr docs \<Rightarrow>
             if docs \<noteq> []
             then (st1, ''Relevant previous conversations:\<newline>''
                        @ join ''\<newline>'' (map page_content docs))
             else (st1, no_history))"

text \<open>The search is not inside a \<open>try\<close>: an exception of the search leaves the function.\<close>

definition get_relevant_documents ::
  "world \<Rightarrow> store \<Rightarrow> string \<Rightarrow> string \<Rightarrow> nat \<Rightarrow> store \<times> (exn + string \<times> (string \<times> string) list)" where
  "get_relevant_documents w st query tenant_id k =
     (let (st1, doc_vector_store) = get_doc_vector_store w st tenant_id
      in case similarity_search w (st1 doc_vector_store) query k of
           Inl e \<Rightarrow> (st1, Inl e)
         | Inr docs \<Rightarrow> (st1, cite_documents docs))"

definition chat_record :: "string \<Rightarrow> string \<Rightarrow> string \<Rightarrow> document" where
  "chat_record query response tenant_id =
     \<lparr>page_content = ''Q: '' @ query @ ''\<newline>A: '' @ response,
      metadata = [(''type'', PStr ''chat_history''), (''tenant_id'', PStr tenant_id),
                  (''query'', PStr query), (''response'', PStr response)]\<rparr>"

text \<open>The whole body is inside a \<open>try\<close>; a failed write is printed and dropped.\<close>

definition store_chat_history :: "world \<Rightarrow> store \<Rightarrow> string \<Rightarrow> string \<Rightarrow> string \<Rightarrow> store" where
  "store_chat_history w st query response tenant_id =
     (let (st1, chat_history_vector_store) = get_chat_history_vector_store w st tenant_id;
          chat_doc = chat_record query response tenant_id
      in case add_documents w st1 chat_history_vector_store [chat_doc] of
           Inl e \<Rightarrow> st1
         | Inr st2 \<Rightarrow> st2)"

text \<open>
  The \<open>async for\<close> loop over the model's stream, inside its \<open>try\<close>.  \<open>yielded\<close> is what
  has been given to the caller and \<open>response_chunks\<close> the list the function keeps; an
  exception of the stream ends the loop.
\<close>

fun astream_loop ::
  "(exn + llm_chunk) list \<Rightarrow> string list \<Rightarrow> string list \<Rightarrow> string list \<times> string list" where
  "astream_loop [] yielded response_chunks = (yielded, response_chunks)"
| "astream_loop (Inl e # rest) yielded response_chunks = (yielded, response_chunks)"
| "astream_loop (Inr chunk # rest) yielded response_chunks =
     (let content = chunk_content chunk
      in astream_loop rest (yielded @ [content]) (response_chunks @ [content]))"

text \<open>
  One run of \<open>stream_rag_response\<close>, consumed to its end: the prompt given to the model
  (none when retrieval raised before), the fragments yielded to the caller, and the
  exception that left the generator, if any.
\<close>

record rag_run =
  prompt_sent :: "string option"
  yielded :: "string list"
  raised :: "exn option"

definition stream_rag_response :: "world \<Rightarrow> store \<Rightarrow> string \<Rightarrow> string \<Rightarrow> store \<times> rag_run" where
  "stream_rag_response w st query tenant_id =
     (let st1 = ensure_indexes_exist w st tenant_id;
          (st2, chat_history) = get_relevant_history w st1 query tenant_id 3;
          (st3, found) = get_relevant_documents w st2 query tenant_id 10
      in case found of
           Inl e \<Rightarrow> (st3, \<lparr>prompt_sent = None, yielded = [], raised = Some e\<rparr>)
         | Inr (context, sources) \<Rightarrow>
             (let formatted_prompt =
                    prompt_format context (sources_block sources) chat_history query;
                  (out, response_chunks) = astream_loop (astream w formatted_prompt) [] [];
                  response = concat response_chunks @ ''\<newline>\<newline>Sources:\<newline>''
                             @ sources_block sources;
                  st4 = store_chat_history w st3 query response tenant_id
              in (st4, \<lparr>prompt_sent = Some formatted_prompt, yielded = out, raised = None\<rparr>)))"

section \<open>Ingestion pipeline (\<open>ingest_file.py\<close>)\<close>

text \<open>
  The body of the \<open>try\<close> of \<open>load_and_split\<close>: the loader is chosen by the lower-cased
  suffix, and any other suffix raises \<open>ValueError\<close>.
\<close>

definition load_dispatch :: "world \<Rightarrow> string \<Rightarrow> string \<Rightarrow> exn + document list" where
  "load_dispatch w file_bytes filename =
     (let suffix = path_suffix w filename
      in if suffix = ''.pdf'' then pdf_loader w file_bytes
         else if suffix = ''.txt'' then text_loader w file_bytes
         else if suffix \<in> set [''.docx'', ''.doc''] then dedoc_loader w file_bytes
         else Inl (ValueError (''Unsupported file type: '' @ filename)))"

text \<open>The \<open>except\<close> branch: one fallback document in place of the loader's result.\<close>

definition fallback_document :: "string \<Rightarrow> exn \<Rightarrow> document" where
  "fallback_document filename e =
     \<lparr>page_content = ''Error loading file: '' @ filename @ ''. Error: '' @ exn_str e,
      metadata = [(''source'', PStr filename), (''error'', PBool True)]\<rparr>"

definition loaded_docs :: "world \<Rightarrow> string \<Rightarrow> string \<Rightarrow> document list" where
  "loaded_docs w file_bytes filename =
     (case load_dispatch w file_bytes filename of
        Inr docs \<Rightarrow> docs
      | Inl e \<Rightarrow> [fallback_document filename e])"

text \<open>The cleaning loop: a document is kept, cleaned, when cleaning leaves some text.\<close>

fun processed_docs :: "document list \<Rightarrow> document list" where
  "processed_docs [] = []"
| "processed_docs (doc # docs) =
     (if page_content doc \<noteq> []
      then (let cleaned_content = clean_text (page_content doc) False
            in if strip cleaned_content \<noteq> []
               then doc\<lparr>page_content := cleaned_content\<rparr> # processed_docs docs
               else processed_docs docs)
      else processed_docs docs)"

definition load_and_split :: "world \<Rightarrow> string \<Rightarrow> string \<Rightarrow> document list" where
  "load_and_split w file_bytes filename =
     (let docs = processed_docs (loaded_docs w file_bytes filename)
      in if docs \<noteq> [] then split_documents w docs else [])"

text \<open>
  The metadata loop of \<open>ingest_file_bytes\<close> on one chunk: \<open>None\<close> and blank strings are
  dropped, \<open>source_file\<close> and \<open>type\<close> are set, the whitespace of the text is collapsed.
\<close>

fun is_blank :: "pyval \<Rightarrow> bool" where
  "is_blank PNone = True"
| "is_blank (PStr v) = (strip v = [])"
| "is_blank (PBool b) = False"
| "is_blank (PInt i) = False"

definition annotate_chunk :: "string \<Rightarrow> document \<Rightarrow> document" where
  "annotate_chunk filename doc =
     (let cleaned_metadata = filter (\<lambda>(k, v). \<not> is_blank v) (metadata doc)
      in \<lparr>page_content = join '' '' (split (page_content doc)),
          metadata = AList.update ''type'' (PStr ''document'')
                       (AList.update ''source_file'' (PStr filename) cleaned_metadata)\<rparr>)"

text \<open>
  The batch loop: batches of 100 chunks are written one after the other; the first
  write that raises ends the loop, and the batches written before stay in the index.
\<close>

definition BATCH_SIZE :: nat where
  "BATCH_SIZE = 100"

function index_batches ::
  "world \<Rightarrow> store \<Rightarrow> string \<Rightarrow> document list \<Rightarrow> store \<times> exn option" where
  "index_batches w st index_name chunks =
     (if chunks = [] then (st, None)
      else (case add_documents w st index_name (take BATCH_SIZE chunks) of
              Inl e \<Rightarrow> (st, Some e)
            | Inr st' \<Rightarrow> index_batches w st' index_name (drop BATCH_SIZE chunks)))"
  by pat_completeness auto
termination
  by (relation "measure (\<lambda>(w, st, index_name, chunks). length chunks)")
     (auto simp: BATCH_SIZE_def)

declare index_batches.simps [simp del]

definition ingest_file_bytes ::
  "world \<Rightarrow> store \<Rightarrow> string \<Rightarrow> string \<Rightarrow> string \<Rightarrow> store \<times> (exn + nat)" where
  "ingest_file_bytes w st file_bytes filename tenant_id =
     (let chunks = load_and_split w file_bytes filename
      in if chunks = [] then (st, Inr 0)
         else (let (st1, doc_vector_store) = get_doc_vector_store w st tenant_id;
                   chunks' = map (annotate_chunk filename) chunks;
                   total_chunks = length chunks'
               in case index_batches w st1 doc_vector_store chunks' of
                    (st2, Some e) \<Rightarrow> (st2, Inl e)
                  | (st2, None) \<Rightarrow> (st2, Inr total_chunks)))"

text \<open>
  The upload endpoint \<open>ingest_multiple_files_api\<close>.  A file is a pair of its name and
  its bytes.  A name that ends in none of the four extensions (compared as written,
  without lower-casing) is reported and skipped; an ingestion that raises is reported.
\<close>

definition endswith :: "string \<Rightarrow> string \<Rightarrow> bool" where
  "endswith s suffix =
     (length suffix \<le> length s \<and> drop (length s - length suffix) s = suffix)"

fun ingest_files_loop ::
  "world \<Rightarrow> store \<Rightarrow> string \<Rightarrow> (string \<times> string) list \<Rightarrow> nat \<Rightarrow> string list
     \<Rightarrow> store \<times> nat \<times> string list" where
  "ingest_files_loop w st tenantId [] total_chunks errors = (st, total_chunks, errors)"
| "ingest_files_loop w st tenantId ((filename, file_bytes) # files) total_chunks errors =
     (if \<not> list_ex (endswith filename) [''.pdf'', ''.txt'', ''.docx'', ''.doc'']
      then ingest_files_loop w st tenantId files total_chunks
             (errors @ [''Unsupported file type: '' @ filename])
      else (case ingest_file_bytes w st file_bytes filename tenantId of
              (st', Inr chunk_count) \<Rightarrow>
                ingest_files_loop w st' tenantId files (total_chunks + chunk_count) errors
            | (st', Inl e) \<Rightarrow>
                ingest_files_loop w st' tenantId files total_chunks
                  (errors @ [''Failed to ingest '' @ filename @ '': '' @ exn_str e])))"

text \<open>\<open>Inl\<close> is the HTTP error (status and detail) of a missing tenant identifier.\<close>

definition ingest_multiple_files_api ::
  "world \<Rightarrow> store \<Rightarrow> string \<Rightarrow> (string \<times> string) list
     \<Rightarrow> store \<times> (nat \<times> string + nat \<times> string list)" where
  "ingest_multiple_files_api w st tenantId files =
     (if tenantId = [] then (st, Inl (400, ''Tenant ID is required.''))
      else (let st1 = ensure_indexes_exist w st tenantId;
                (st2, total_chunks, errors) = ingest_files_loop w st1 tenantId files 0 []
            in (st2, Inr (total_chunks, errors))))"

section \<open>Embedding client (\<open>ollama_embeddings.py\<close>)\<close>

text \<open>
  Every failure of \<open>_embed\<close> is a \<open>ValueError\<close>; the constructors keep what its message
  is made of: the status code and body text, the response without an \<open>embedding\<close>
  field, the value that is not a non-empty list, the message of the request exception
  (a body that is not JSON is one: the decoding error of \<open>requests\<close> is a
  \<open>RequestException\<close>), and the message of any other exception.
\<close>

datatype embed_error =
    StatusFailed int string
  | NoEmbedding json
  | InvalidFormat json
  | NetworkError string
  | Unexpected string

text \<open>\<open>[0.0] * 384\<close>.\<close>

definition zero_vector :: "json list" where
  "zero_vector = replicate 384 (JNum 0)"

text \<open>\<open>try: body  except Exception as e: handler(e)\<close>.\<close>

definition try_except :: "'e + 'a \<Rightarrow> ('e \<Rightarrow> 'e + 'a) \<Rightarrow> 'e + 'a" where
  "try_except body handler = (case body of Inl e \<Rightarrow> handler e | Inr v \<Rightarrow> Inr v)"

text \<open>\<open>sub in s\<close> on strings.\<close>

fun contains :: "string \<Rightarrow> string \<Rightarrow> bool" where
  "contains sub [] = (sub = [])"
| "contains sub (c # cs) = (take (length sub) (c # cs) = sub \<or> contains sub cs)"

text \<open>
  \<open>"embedding" not in result\<close> followed by \<open>result["embedding"]\<close>, for each kind of JSON
  value: a list or a string that holds \<open>"embedding"\<close> passes the test and then cannot be
  indexed by a string; \<open>in\<close> is not defined on the other values (the message for a
  number names \<open>float\<close>; Python names \<open>int\<close> for a number spelled without a fraction).
\<close>

fun embedding_field :: "json \<Rightarrow> embed_error + json" where
  "embedding_field (JObj kvs) =
     (case map_of kvs ''embedding'' of
        None \<Rightarrow> Inl (NoEmbedding (JObj kvs))
      | Some v \<Rightarrow> Inr v)"
| "embedding_field (JArr xs) =
     (if JStr ''embedding'' \<in> set xs
      then Inl (Unexpected ''list indices must be integers or slices, not str'')
      else Inl (NoEmbedding (JArr xs)))"
| "embedding_field (JStr s) =
     (if contains ''embedding'' s
      then Inl (Unexpected (''string indices must be integers, not 'str'' @ [CHR 0x27]))
      else Inl (NoEmbedding (JStr s)))"
| "embedding_field JNull = Inl (Unexpected ''argument of type 'NoneType' is not iterable'')"
| "embedding_field (JBool b) = Inl (Unexpected ''argument of type 'bool' is not iterable'')"
| "embedding_field (JNum x) = Inl (Unexpected ''argument of type 'float' is not iterable'')"

text \<open>\<open>_embed\<close> (the name \<open>embed\<close> is taken).\<close>

definition embed_text :: "world \<Rightarrow> string \<Rightarrow> embed_error + json list" where
  "embed_text w text =
     (if text = [] \<or> strip text = [] then Inr zero_vector
      else (case embeddings_post w (strip text) of
              RequestException m \<Rightarrow> Inl (NetworkError m)
            | PostError m \<Rightarrow> Inl (Unexpected m)
            | Response status_code body parsed \<Rightarrow>
                if status_code \<noteq> 200 then Inl (StatusFailed status_code body)
                else (case parsed of
                        Inl m \<Rightarrow> Inl (NetworkError m)
                      | Inr result \<Rightarrow>
                          (case embedding_field result of
                             Inl e \<Rightarrow> Inl e
                           | Inr embedding \<Rightarrow>
                               (case embedding of
                                  JArr (x # xs) \<Rightarrow> Inr (x # xs)
                                | _ \<Rightarrow> Inl (InvalidFormat embedding))))))"

text \<open>The loop of \<open>embed_documents\<close>; \<open>embeddings\<close> is the list built so far.\<close>

fun embed_documents_loop ::
  "world \<Rightarrow> string list \<Rightarrow> json list list \<Rightarrow> embed_error + json list list" where
  "embed_documents_loop w [] embeddings = Inr embeddings"
| "embed_documents_loop w (text # texts) embeddings =
     (case try_except
             (case embed_text w text of
                Inl e \<Rightarrow> Inl e
              | Inr embedding \<Rightarrow> Inr (embeddings @ [embedding]))
             (\<lambda>e. Inr (embeddings @ [zero_vector])) of
        Inl e \<Rightarrow> Inl e
      | Inr embeddings' \<Rightarrow> embed_documents_loop w texts embeddings')"

definition embed_documents :: "world \<Rightarrow> string list \<Rightarrow> embed_error + json list list" where
  "embed_documents w texts = embed_documents_loop w texts []"

definition embed_query :: "world \<Rightarrow> string \<Rightarrow> embed_error + json list" where
  "embed_query w text = try_except (embed_text w text) (\<lambda>e. Inr zero_vector)"

definition is_available :: "world \<Rightarrow> bool" where
  "is_available w =
     (case embed_text w ''test'' of
        Inr test_embedding \<Rightarrow> length test_embedding > 0
      | Inl e \<Rightarrow> False)"

section \<open>A sample environment\<close>

text \<open>
  One concrete \<open>world\<close>, for running the definitions on examples: the PDF and Word
  loaders fail, the text loader returns the bytes as one document, the splitter leaves
  the documents whole, the vector store accepts every request and ranks the oldest
  documents first, the model's stream breaks after two fragments, and the embedding
  service is unreachable.  \<open>example_suffix\<close> is \<open>Path(filename).suffix.lower()\<close> on ASCII
  names without a trailing slash: the last component of the path, from its last dot,
  lower-cased; empty when there is no dot or the dot is the first or the last character.
\<close>

definition ascii_lower :: "char \<Rightarrow> char" where
  "ascii_lower c =
     (let n = (of_char c :: nat) in if 65 \<le> n \<and> n \<le> 90 then char_of (n + 32) else c)"

definition example_suffix :: "string \<Rightarrow> string" where
  "example_suffix filename =
     (let name = rev (takeWhile (\<lambda>c. c \<noteq> CHR ''/'') (rev filename));
          extension = rev (takeWhile (\<lambda>c. c \<noteq> CHR ''.'') (rev name));
          stem = rev (drop 1 (dropWhile (\<lambda>c. c \<noteq> CHR ''.'') (rev name)))
      in if CHR ''.'' \<notin> set name \<or> extension = [] \<or> stem = [] then []
         else map ascii_lower (CHR ''.'' # extension))"

definition sample_world :: world where
  "sample_world =
     \<lparr>path_suffix = example_suffix,
      pdf_loader = (\<lambda>b. Inl (OtherError ''cannot open broken document'')),
      text_loader =
        (\<lambda>b. Inr [\<lparr>page_content = b, metadata = [(''source'', PStr ''upload.txt'')]\<rparr>]),
      dedoc_loader = (\<lambda>b. Inl (OtherError ''dedoc is not installed'')),
      split_documents = (\<lambda>docs. docs),
      index_check_ok = (\<lambda>name. True),
      index_create_ok = (\<lambda>name. True),
      similarity_search =
        (\<lambda>content query k. case content of
                               None \<Rightarrow> Inl (OtherError ''index_not_found_exception'')
                             | Some ds \<Rightarrow> Inr (take k ds)),
      add_documents_error = (\<lambda>st name docs. None),
      astream = (\<lambda>p. [Inr (Message ''Par''), Inr (Message ''tial''),
                       Inl (OtherError ''connection reset'')]),
      embeddings_post = (\<lambda>t. RequestException ''connection refused'')\<rparr>"

text \<open>A chunk that the examples retrieve more than once.\<close>

definition same_chunk :: document where
  "same_chunk = \<lparr>page_content = ''Refunds take 5 days.'', metadata = [(''source_file'', PStr ''faq.txt'')]\<rparr>"


definition first_page_chunk :: document where
  "first_page_chunk =
     \<lparr>page_content = ''Introduction'',
      metadata = [(''title'', PStr ''User Guide''), (''page'', PInt 0),
                  (''source_file'', PStr ''guide.pdf'')]\<rparr>"

text \<open>
  Two functions for stating what the pipeline does: the history text of
  \<open>get_relevant_history\<close> as a function of the content of the chat-history index, and the
  contents of the fragments that a stream delivers before its first exception.
\<close>

definition history_text :: "world \<Rightarrow> document list option \<Rightarrow> string \<Rightarrow> string" where
  "history_text w content query =
     (case similarity_search w content query 3 of
        Inl e \<Rightarrow> no_history
      | Inr docs \<Rightarrow>
          if docs \<noteq> []
          then ''Relevant previous conversations:\<newline>'' @ join ''\<newline>'' (map page_content docs)
          else no_history)"

fun produced :: "(exn + llm_chunk) list \<Rightarrow> string list" where
  "produced [] = []"
| "produced (Inl e # rest) = []"
| "produced (Inr chunk # rest) = chunk_content chunk # produced rest"

text \<open>A store in which tenant \<open>acme\<close> has one chunk and no chat-history index yet.\<close>

definition sample_store :: store where
  "sample_store = (\<lambda>name. None)(''doc_acme'' \<mapsto> [first_page_chunk])"

section \<open>Properties of the text normalizer\<close>

text \<open>
  C9: \<open>clean_text("co- operative")\<close> is exactly \<open>"cooperative"\<close>: the hyphen that is attached
  to a word and followed by whitespace and a continuation word is removed together with
  the whitespace, and the later rules leave the joined word as it is.
\<close>

theorem clean_text_cooperative: "clean_text ''co- operative'' False = ''cooperative''"
  by code_simp

section \<open>Properties of the embedding client\<close>

lemma zero_vector_shape: "length zero_vector = 384 \<and> (\<forall>x \<in> set zero_vector. x = JNum 0)"
  by (simp add: zero_vector_def)

lemma embed_documents_loop_eq:
  "embed_documents_loop w texts acc =
     Inr (acc @ map (\<lambda>t. case embed_text w t of Inl e \<Rightarrow> zero_vector | Inr v \<Rightarrow> v) texts)"
  by (induction texts arbitrary: acc) (auto simp: try_except_def split: sum.splits)

lemma sample_embed_fails:
  "strip text \<noteq> [] \<Longrightarrow> embed_text sample_world text = Inl (NetworkError ''connection refused'')"
  by (auto simp: embed_text_def sample_world_def strip_def)

text \<open>
  C8: \<open>embed_documents\<close> never raises and returns one vector for each text, in order: the
  zero vector of 384 dimensions where \<open>_embed\<close> fails on the text, and the vector
  \<open>_embed\<close> returns where it succeeds.
\<close>

theorem embed_documents_never_raises:
  "\<exists>vs. embed_documents w texts = Inr vs \<and> length vs = length texts
        \<and> (\<forall>i < length texts. \<forall>e. embed_text w (texts ! i) = Inl e \<longrightarrow> vs ! i = zero_vector)
        \<and> (\<forall>i < length texts. \<forall>v. embed_text w (texts ! i) = Inr v \<longrightarrow> vs ! i = v)
        \<and> length zero_vector = 384 \<and> (\<forall>x \<in> set zero_vector. x = JNum 0)"
  by (auto simp: embed_documents_def embed_documents_loop_eq zero_vector_shape)

theorem embed_documents_never_raises_witness:
  "embed_text sample_world ([''report'', '' ''] ! 0) = Inl (NetworkError ''connection refused'')
   \<and> embed_text sample_world ([''report'', '' ''] ! 1) = Inr zero_vector
   \<and> embed_documents sample_world [''report'', '' ''] = Inr [zero_vector, zero_vector]"
proof -
  have f: "embed_text sample_world ''report'' = Inl (NetworkError ''connection refused'')"
    by (rule sample_embed_fails) (simp add: strip_def is_space_def)
  have b: "embed_text sample_world '' '' = Inr zero_vector"
    by (simp add: embed_text_def strip_def is_space_def)
  obtain vs where vs: "embed_documents sample_world [''report'', '' ''] = Inr vs"
    "length vs = 2" "vs ! 0 = zero_vector" "vs ! 1 = zero_vector"
    using embed_documents_never_raises [of sample_world "[''report'', '' '']"] f b
    by (auto simp: nth_Cons' less_Suc_eq all_conj_distrib)
  have "vs = [zero_vector, zero_vector]"
    using vs(2-4) by (cases vs; cases "tl vs") auto
  with vs(1) f b show ?thesis by simp
qed

text \<open>
  C10: \<open>embed_query\<close> never raises: it returns a vector for every text, and the zero
  vector of 384 dimensions whenever \<open>_embed\<close> fails, so the failure of the remote call
  does not reach the caller of this entry point.
\<close>

theorem embed_query_never_raises:
  "(\<exists>v. embed_query w text = Inr v)
   \<and> (\<forall>e. embed_text w text = Inl e \<longrightarrow> embed_query w text = Inr zero_vector)
   \<and> (\<forall>v. embed_text w text = Inr v \<longrightarrow> embed_query w text = Inr v)
   \<and> length zero_vector = 384 \<and> (\<forall>x \<in> set zero_vector. x = JNum 0)"
  by (auto simp: embed_query_def try_except_def zero_vector_shape split: sum.splits)

theorem embed_query_never_raises_witness:
  "embed_text sample_world ''what is the refund policy''
     = Inl (NetworkError ''connection refused'')
   \<and> embed_query sample_world ''what is the refund policy'' = Inr zero_vector"
proof -
  have f: "embed_text sample_world ''what is the refund policy''
             = Inl (NetworkError ''connection refused'')"
    by (rule sample_embed_fails) (simp add: strip_def is_space_def)
  with embed_query_never_raises [of sample_world "''what is the refund policy''"]
  show ?thesis by blast
qed


section \<open>Properties of the numbered context and the citation mapping\<close>

lemma digit_char_inj: "a < 10 \<Longrightarrow> b < 10 \<Longrightarrow> digit_char a = digit_char b \<Longrightarrow> a = b"
  by (simp add: digit_char_def char_of_eq_iff take_bit_eq_mod)

lemma str_nat_nonempty: "str_nat n \<noteq> []"
  by (subst str_nat.simps) simp

lemma str_nat_inj: "str_nat m = str_nat n \<Longrightarrow> m = n"
proof (induction m arbitrary: n rule: str_nat.induct)
  case (1 m)
  show ?case
  proof (cases "m < 10")
    case small_m: True
    show ?thesis
    proof (cases "n < 10")
      case True
      with small_m "1.prems" show ?thesis
        by (simp add: str_nat.simps [of m] str_nat.simps [of n] digit_char_inj)
    next
      case False
      with small_m "1.prems" str_nat_nonempty [of "n div 10"] show ?thesis
        by (simp add: str_nat.simps [of m] str_nat.simps [of n])
    qed
  next
    case big_m: False
    show ?thesis
    proof (cases "n < 10")
      case True
      with big_m "1.prems" str_nat_nonempty [of "m div 10"] show ?thesis
        by (simp add: str_nat.simps [of m] str_nat.simps [of n])
    next
      case False
      with big_m "1.prems"
      have eq: "str_nat (m div 10) = str_nat (n div 10)"
        and d: "digit_char (m mod 10) = digit_char (n mod 10)"
        by (simp_all add: str_nat.simps [of m] str_nat.simps [of n])
      from "1.IH" [OF big_m eq] have "m div 10 = n div 10" .
      moreover from d have "m mod 10 = n mod 10"
        by (rule digit_char_inj [rotated 2]) simp_all
      ultimately show ?thesis
        by (metis div_mult_mod_eq)
    qed
  qed
qed

lemma citation_label_inj: "citation_label i = citation_label j \<Longrightarrow> i = j"
  using str_nat_inj [of "i + 1" "j + 1"] by (simp add: citation_label_def)

lemma update_fresh: "k \<notin> fst ` set al \<Longrightarrow> AList.update k v al = al @ [(k, v)]"
  by (induction al) auto

lemma build_sources_append:
  "build_sources (enumerate n docs) acc = Inr sources \<Longrightarrow>
   (\<forall>j. n \<le> j \<longrightarrow> citation_label j \<notin> fst ` set acc) \<Longrightarrow>
   sources = acc @ map (\<lambda>(i, d). (citation_label i, projr (source_descriptor d))) (enumerate n docs)
   \<and> (\<forall>d \<in> set docs. \<exists>x. source_descriptor d = Inr x)"
proof (induction docs arbitrary: n acc)
  case Nil
  then show ?case by simp
next
  case (Cons d docs)
  from Cons.prems(1) obtain x where x: "source_descriptor d = Inr x"
    and rest: "build_sources (enumerate (Suc n) docs) (AList.update (citation_label n) x acc) = Inr sources"
    by (auto split: sum.splits)
  from Cons.prems(2) have upd: "AList.update (citation_label n) x acc = acc @ [(citation_label n, x)]"
    by (simp add: update_fresh)
  have fresh: "\<forall>j. Suc n \<le> j \<longrightarrow> citation_label j \<notin> fst ` set (acc @ [(citation_label n, x)])"
    using Cons.prems(2) by (auto simp: image_Un dest: citation_label_inj)
  from Cons.IH [OF rest [unfolded upd] fresh] x show ?case
    by simp
qed

lemma build_sources_total:
  "\<forall>d \<in> set docs. \<exists>x. source_descriptor d = Inr x \<Longrightarrow>
   \<exists>sources. build_sources (enumerate n docs) acc = Inr sources"
  by (induction docs arbitrary: n acc) (auto split: sum.splits)

lemma source_descriptor_isr:
  "(\<forall>s. dict_get (metadata d) ''page'' PNone \<noteq> PStr s) \<Longrightarrow> \<exists>x. source_descriptor d = Inr x"
  by (cases "dict_get (metadata d) ''page'' PNone") (auto simp: source_descriptor_def Let_def)

lemma join_map_nth: "map f (enumerate 0 docs) = map (\<lambda>i. f (i, docs ! i)) [0..<length docs]"
  by (rule nth_equalityI) (simp_all add: nth_enumerate_eq)

text \<open>
  C3: for a non-empty list of \<open>K\<close> retrieved chunks, the context is the newline-joined
  list whose entry \<open>i\<close> (counted from 0, in the order the search returned the chunks) is
  \<open>[i+1]\<close>, a space and the text of chunk \<open>i\<close>; the keys of the citation mapping are
  \<open>[1]\<close> to \<open>[K]\<close> in that order, pairwise different, and the value under label
  \<open>[i+1]\<close> is the descriptor of chunk \<open>i\<close>.  Nothing is sorted or merged: equal chunks
  get labels of their own.  The result exists whenever no chunk has a string as its page.
\<close>

theorem citation_labels_one_to_K:
  "docs \<noteq> [] \<Longrightarrow>
   ((\<forall>d \<in> set docs. \<forall>s. dict_get (metadata d) ''page'' PNone \<noteq> PStr s) \<longrightarrow>
      (\<exists>context sources. cite_documents docs = Inr (context, sources)))
   \<and> (\<forall>context sources. cite_documents docs = Inr (context, sources) \<longrightarrow>
        context = join ''\<newline>''
                    (map (\<lambda>i. ''['' @ str_nat (i + 1) @ ''] '' @ page_content (docs ! i))
                       [0..<length docs])
        \<and> map fst sources = map (\<lambda>i. ''['' @ str_nat (i + 1) @ '']'') [0..<length docs]
        \<and> distinct (map fst sources)
        \<and> (\<forall>i < length docs. source_descriptor (docs ! i) = Inr (snd (sources ! i))))"
proof (intro conjI impI allI)
  assume "docs \<noteq> []" and ok: "\<forall>d \<in> set docs. \<forall>s. dict_get (metadata d) ''page'' PNone \<noteq> PStr s"
  then show "\<exists>context sources. cite_documents docs = Inr (context, sources)"
    using build_sources_total [of docs 0 "[]"] source_descriptor_isr
    by (auto simp: cite_documents_def)
next
  fix ctx sources
  assume ne: "docs \<noteq> []" and res: "cite_documents docs = Inr (ctx, sources)"
  from ne res have ctx: "ctx = numbered_context docs"
    and bs: "build_sources (enumerate 0 docs) [] = Inr sources"
    by (auto simp: cite_documents_def split: sum.splits)
  from build_sources_append [OF bs]
  have src: "sources = map (\<lambda>(i, d). (citation_label i, projr (source_descriptor d))) (enumerate 0 docs)"
    and defd: "\<forall>d \<in> set docs. \<exists>x. source_descriptor d = Inr x"
    by simp_all
  show "ctx = join ''\<newline>''
                    (map (\<lambda>i. ''['' @ str_nat (i + 1) @ ''] '' @ page_content (docs ! i))
                       [0..<length docs])"
    by (simp add: ctx numbered_context_def join_map_nth context_entry_def citation_label_def)
  show keys: "map fst sources = map (\<lambda>i. ''['' @ str_nat (i + 1) @ '']'') [0..<length docs]"
    by (simp add: src join_map_nth citation_label_def)
  have "inj_on citation_label (set [0..<length docs])"
    by (rule inj_onI) (rule citation_label_inj)
  then have "distinct (map citation_label [0..<length docs])"
    by (simp add: distinct_map)
  moreover have "map fst sources = map citation_label [0..<length docs]"
    by (simp add: src join_map_nth)
  ultimately show "distinct (map fst sources)"
    by simp
  show "source_descriptor (docs ! i) = Inr (snd (sources ! i))" if i: "i < length docs" for i
  proof -
    from i have "docs ! i \<in> set docs" by simp
    with defd obtain x where "source_descriptor (docs ! i) = Inr x" by blast
    with i show ?thesis
      by (simp add: src nth_enumerate_eq)
  qed
qed

theorem citation_labels_one_to_K_witness:
  "[same_chunk, same_chunk] \<noteq> []
   \<and> dict_get (metadata same_chunk) ''page'' PNone = PNone
   \<and> cite_documents [same_chunk, same_chunk]
       = Inr (''[1] Refunds take 5 days.\<newline>[2] Refunds take 5 days.'',
              [(''[1]'', ''faq.txt''), (''[2]'', ''faq.txt'')])"
proof -
  let ?docs = "[same_chunk, same_chunk]"
  have ne: "?docs \<noteq> []" by simp
  have page: "dict_get (metadata same_chunk) ''page'' PNone = PNone"
    by (simp add: same_chunk_def dict_get_def)
  then have ok: "\<forall>d \<in> set ?docs. \<forall>s. dict_get (metadata d) ''page'' PNone \<noteq> PStr s"
    by simp
  have one: "str_nat (Suc 0) = ''1''" and two: "str_nat (Suc (Suc 0)) = ''2''"
    by code_simp+
  have pc: "page_content same_chunk = ''Refunds take 5 days.''"
    by (simp add: same_chunk_def)
  have descr: "source_descriptor same_chunk = Inr ''faq.txt''"
    by (simp add: source_descriptor_def same_chunk_def dict_get_def py_or_def)
  from citation_labels_one_to_K [OF ne] ok
  obtain c sources where res: "cite_documents ?docs = Inr (c, sources)"
    by blast
  with citation_labels_one_to_K [OF ne]
  have "c = join ''\<newline>''
              (map (\<lambda>i. ''['' @ str_nat (i + 1) @ ''] '' @ page_content (?docs ! i))
                 [0..<length ?docs])"
    and "map fst sources = map (\<lambda>i. ''['' @ str_nat (i + 1) @ '']'') [0..<length ?docs]"
    and "\<forall>i < length ?docs. source_descriptor (?docs ! i) = Inr (snd (sources ! i))"
    by blast+
  then have c: "c = ''[1] Refunds take 5 days.\<newline>[2] Refunds take 5 days.''"
    and keys: "map fst sources = [''[1]'', ''[2]'']"
    and vals: "snd (sources ! 0) = ''faq.txt''" "snd (sources ! 1) = ''faq.txt''"
    by (auto simp: upt_rec one two pc descr nth_Cons' less_Suc_eq all_conj_distrib)
  from keys obtain a b where ab: "sources = [a, b]" "fst a = ''[1]''" "fst b = ''[2]''"
    by (cases sources; cases "tl sources") auto
  with vals have "sources = [(''[1]'', ''faq.txt''), (''[2]'', ''faq.txt'')]"
    by (cases a; cases b) simp
  with res c ne page show ?thesis by simp
qed





section \<open>Properties of the answer pipeline\<close>


lemma create_index_idem:
  "create_index_if_not_exists w (create_index_if_not_exists w st a) a = create_index_if_not_exists w st a"
  by (auto simp: create_index_if_not_exists_def)

lemma create_index_commute:
  "create_index_if_not_exists w (create_index_if_not_exists w st a) b
     = create_index_if_not_exists w (create_index_if_not_exists w st b) a"
  by (cases "a = b") (auto simp: create_index_if_not_exists_def fun_upd_twist)


lemma ensure_indexes_exist_eq:
  "ensure_indexes_exist w st t =
     create_index_if_not_exists w (create_index_if_not_exists w st (doc_index_name t))
       (chat_history_index_name t)"
  by (simp add: ensure_indexes_exist_def get_doc_vector_store_def get_chat_history_vector_store_def
      Let_def)

lemma ensure_then_doc:
  "create_index_if_not_exists w (ensure_indexes_exist w st t) (doc_index_name t)
     = ensure_indexes_exist w st t"
  by (metis create_index_commute create_index_idem ensure_indexes_exist_eq)

lemma ensure_then_chat:
  "create_index_if_not_exists w (ensure_indexes_exist w st t) (chat_history_index_name t)
     = ensure_indexes_exist w st t"
  by (simp add: ensure_indexes_exist_eq create_index_idem)

lemma get_relevant_history_ensured:
  "st1 = ensure_indexes_exist w st t \<Longrightarrow>
   get_relevant_history w st1 query t 3 = (st1, history_text w (st1 (chat_history_index_name t)) query)"
  by (auto simp: get_relevant_history_def get_chat_history_vector_store_def ensure_then_chat
      history_text_def Let_def split: sum.splits)

lemma get_relevant_documents_ensured:
  "st1 = ensure_indexes_exist w st t \<Longrightarrow>
   get_relevant_documents w st1 query t k =
     (st1, case similarity_search w (st1 (doc_index_name t)) query k of
             Inl e \<Rightarrow> Inl e | Inr docs \<Rightarrow> cite_documents docs)"
  by (auto simp: get_relevant_documents_def get_doc_vector_store_def ensure_then_doc Let_def
      split: sum.splits)

lemma store_chat_history_ensured:
  "st1 = ensure_indexes_exist w st t \<Longrightarrow>
   store_chat_history w st1 query response t =
     (case add_documents w st1 (chat_history_index_name t) [chat_record query response t] of
        Inl e \<Rightarrow> st1 | Inr st2 \<Rightarrow> st2)"
  by (auto simp: store_chat_history_def get_chat_history_vector_store_def ensure_then_chat
      Let_def split: sum.splits)

lemma astream_loop_eq:
  "astream_loop events out chunks = (out @ produced events, chunks @ produced events)"
  by (induction events out chunks rule: astream_loop.induct) (simp_all add: Let_def)

lemma produced_broken: "produced (map Inr before @ Inl e # rest) = map chunk_content before"
  by (induction before) simp_all

lemma stream_rag_response_unfold:
  assumes "st1 = ensure_indexes_exist w st t"
  shows "stream_rag_response w st query t =
     (case similarity_search w (st1 (doc_index_name t)) query 10 of
        Inl e \<Rightarrow> (st1, \<lparr>prompt_sent = None, yielded = [], raised = Some e\<rparr>)
      | Inr docs \<Rightarrow>
          (case cite_documents docs of
             Inl e \<Rightarrow> (st1, \<lparr>prompt_sent = None, yielded = [], raised = Some e\<rparr>)
           | Inr (ctx, sources) \<Rightarrow>
               (let p = prompt_format ctx (sources_block sources)
                          (history_text w (st1 (chat_history_index_name t)) query) query;
                    response = concat (produced (astream w p)) @ ''\<newline>\<newline>Sources:\<newline>''
                               @ sources_block sources
                in (case add_documents w st1 (chat_history_index_name t)
                           [chat_record query response t] of
                      Inl e \<Rightarrow> st1 | Inr st2 \<Rightarrow> st2,
                    \<lparr>prompt_sent = Some p, yielded = produced (astream w p), raised = None\<rparr>))))"
  unfolding stream_rag_response_def Let_def assms
  by (simp add: get_relevant_history_ensured [OF refl] get_relevant_documents_ensured [OF refl]
      store_chat_history_ensured [OF refl] astream_loop_eq
      split: sum.splits prod.splits)

lemma cite_documents_empty: "cite_documents [] = Inr (empty_context, [])"
  by (simp add: cite_documents_def)

text \<open>
  The rendered prompt, section by section: the fixed instructions, then the context, the
  sources block, the chat history and the question, each between its tags.
\<close>

lemma prompt_format_sections:
  \<open>prompt_format c s h q =
     (''\<newline>''
      @ ''<|SYSTEM|>\<newline>''
      @ ''You are a precise RAG assistant. Your sole task is to answer the user's `<QUESTION>` using ONLY the provided `<CONTEXT>`.\<newline>''
      @ ''\<newline>''
      @ ''## Your Rules:\<newline>''
      @ ''1.  **Strictly Grounded:** Base every single statement in your answer on the provided text. NEVER use external knowledge or make assumptions.\<newline>''
      @ ''2.  **Cite Everything:** You MUST add a citation `[1]` or `[3][5]` after every piece of information. The citation goes *before* the punctuation.\<newline>''
      @ ''3.  **List Your Sources:** After the answer, you MUST provide a `Sources:` list, citing the full title of each source you used.\<newline>''
      @ ''4.  **Be Direct:** Do not add any conversational preamble. Start directly with the answer.\<newline>''
      @ ''5.  **Handle No Information Politely:** If the context does not contain the answer, you MUST respond with the exact phrase: "I'm sorry, but I couldn't find the information needed to answer your question in the provided documents."\<newline>''
      @ ''\<newline>''
      @ ''<|USER|>\<newline>'')
     @ ''<CONTEXT>\<newline>'' @ c @ ''\<newline></CONTEXT>\<newline>\<newline><SOURCES_BLOCK>\<newline>'' @ s
         @ ''\<newline></SOURCES_BLOCK>\<newline>\<newline><CHAT_HISTORY>\<newline>'' @ h
         @ ''\<newline></CHAT_HISTORY>\<newline>\<newline><QUESTION>\<newline>'' @ q @ ''\<newline></QUESTION>\<newline>\<newline><|SYSTEM|>\<newline>''\<close>
  unfolding prompt_format_def by (simp only: append_assoc append_Cons append_Nil)

text \<open>
  C5: when the similarity search over the tenant's document index returns no chunk,
  \<open>get_relevant_documents\<close> returns the empty-context sentinel \<open>\{empty\}\<close> and an empty
  citation mapping, and the sources block is empty.  The run still gives the model a
  prompt and yields what the model's stream delivers for it; in that prompt the section
  between the \<open>CONTEXT\<close> tags is the sentinel and the section between the
  \<open>SOURCES_BLOCK\<close> tags is the empty sources block.
\<close>

theorem empty_retrieval_still_asks_model:
  assumes st1: "st1 = ensure_indexes_exist w st tenant_id"
    and search: "similarity_search w (st1 (doc_index_name tenant_id)) query 10 = Inr []"
    and history: "chat_history = snd (get_relevant_history w st1 query tenant_id 3)"
    and p: "p = prompt_format empty_context (sources_block []) chat_history query"
  shows "snd (get_relevant_documents w st1 query tenant_id 10) = Inr (empty_context, [])
   \<and> sources_block [] = []
   \<and> snd (stream_rag_response w st query tenant_id)
       = \<lparr>prompt_sent = Some p, yielded = fst (astream_loop (astream w p) [] []), raised = None\<rparr>
   \<and> (\<exists>head. p = head @ ''<CONTEXT>\<newline>'' @ empty_context @ ''\<newline></CONTEXT>\<newline>\<newline><SOURCES_BLOCK>\<newline>'' @ sources_block []
                   @ ''\<newline></SOURCES_BLOCK>\<newline>\<newline><CHAT_HISTORY>\<newline>'' @ chat_history
                   @ ''\<newline></CHAT_HISTORY>\<newline>\<newline><QUESTION>\<newline>'' @ query @ ''\<newline></QUESTION>\<newline>\<newline><|SYSTEM|>\<newline>'')
   \<and> empty_context = [CHR 0x5C, CHR ''{'', CHR ''e'', CHR ''m'', CHR ''p'', CHR ''t'', CHR ''y'',
                        CHR 0x5C, CHR ''}'']"
proof -
  have h: "chat_history = history_text w (st1 (chat_history_index_name tenant_id)) query"
    by (simp add: history get_relevant_history_ensured [OF st1])
  have d: "snd (get_relevant_documents w st1 query tenant_id 10) = Inr (empty_context, [])"
    by (simp add: get_relevant_documents_ensured [OF st1] search cite_documents_empty)
  have run: "snd (stream_rag_response w st query tenant_id)
       = \<lparr>prompt_sent = Some p, yielded = produced (astream w p), raised = None\<rparr>"
    by (simp add: stream_rag_response_unfold [OF st1] search cite_documents_empty Let_def h p)
  have block: "sources_block [] = []"
    by (simp add: sources_block_def)
  have rendered: "\<exists>head. p = head @ ''<CONTEXT>\<newline>'' @ empty_context @ ''\<newline></CONTEXT>\<newline>\<newline><SOURCES_BLOCK>\<newline>'' @ sources_block []
                   @ ''\<newline></SOURCES_BLOCK>\<newline>\<newline><CHAT_HISTORY>\<newline>'' @ chat_history
                   @ ''\<newline></CHAT_HISTORY>\<newline>\<newline><QUESTION>\<newline>'' @ query @ ''\<newline></QUESTION>\<newline>\<newline><|SYSTEM|>\<newline>''"
    unfolding p prompt_format_sections by (rule exI) (rule refl)
  have sentinel: "empty_context = [CHR 0x5C, CHR ''{'', CHR ''e'', CHR ''m'', CHR ''p'', CHR ''t'', CHR ''y'',
                        CHR 0x5C, CHR ''}'']"
    by (simp add: empty_context_def)
  have out: "produced (astream w p) = fst (astream_loop (astream w p) [] [])"
    by (simp add: astream_loop_eq)
  from d block rendered sentinel run [unfolded out] show ?thesis
    by (intro conjI)
qed


theorem empty_retrieval_still_asks_model_witness:
  "similarity_search sample_world
     (ensure_indexes_exist sample_world (\<lambda>name. None) ''acme'' (doc_index_name ''acme''))
     ''What is the refund policy?'' 10 = Inr []
   \<and> snd (stream_rag_response sample_world (\<lambda>name. None) ''What is the refund policy?'' ''acme'')
       = \<lparr>prompt_sent =
            Some (prompt_format empty_context [] no_history ''What is the refund policy?''),
          yielded = [''Par'', ''tial''], raised = None\<rparr>
   \<and> (\<exists>head. prompt_format empty_context [] no_history ''What is the refund policy?''
          = head @ ''<CONTEXT>\<newline>'' @ empty_context @ ''\<newline></CONTEXT>\<newline>\<newline><SOURCES_BLOCK>\<newline>''
            @ ''\<newline></SOURCES_BLOCK>\<newline>\<newline><CHAT_HISTORY>\<newline>'' @ no_history
            @ ''\<newline></CHAT_HISTORY>\<newline>\<newline><QUESTION>\<newline>'' @ ''What is the refund policy?''
            @ ''\<newline></QUESTION>\<newline>\<newline><|SYSTEM|>\<newline>'')"
proof -
  let ?st1 = "ensure_indexes_exist sample_world (\<lambda>name. None) ''acme''"
  have idx: "?st1 (doc_index_name ''acme'') = Some []" "?st1 (chat_history_index_name ''acme'') = Some []"
    by (simp_all add: ensure_indexes_exist_eq create_index_if_not_exists_def sample_world_def
        doc_index_name_def chat_history_index_name_def)
  have search: "similarity_search sample_world (?st1 (doc_index_name ''acme''))
                  ''What is the refund policy?'' 10 = Inr []"
    by (simp add: idx) (simp add: sample_world_def)
  have history: "snd (get_relevant_history sample_world ?st1 ''What is the refund policy?'' ''acme'' 3)
                   = no_history"
    by (simp add: get_relevant_history_ensured [OF refl] history_text_def idx)
       (simp add: sample_world_def)
  have out: "fst (astream_loop (astream sample_world p) [] []) = [''Par'', ''tial'']" for p
    by (simp add: sample_world_def Let_def)
  have block: "sources_block [] = []"
    by (simp add: sources_block_def)
  note inst = empty_retrieval_still_asks_model [OF refl search refl refl]
  note run = inst [THEN conjunct2, THEN conjunct2, THEN conjunct1, unfolded history out block]
  note rendered = inst [THEN conjunct2, THEN conjunct2, THEN conjunct2, THEN conjunct1,
      unfolded history block append_Nil]
  from search run rendered show ?thesis
    by (intro conjI)
qed

text \<open>
  C1: let retrieval have produced a context and a citation mapping, and let the model's
  stream for the rendered prompt deliver the fragments \<open>before\<close> and then raise.  Then
  the run yields exactly the contents of \<open>before\<close> and raises nothing, and it ends by
  calling \<open>store_chat_history\<close> with the response made of the concatenation of the
  yielded contents, then \<open>"\n\nSources:\n"\<close>, then the sources block that was rendered
  into the prompt.  The one record with this response is appended to the tenant's
  chat-history index (the store accepting the write, which \<open>store_chat_history\<close> does
  not retry).
\<close>

theorem stream_failure_keeps_partial_answer:
  assumes st1: "st1 = ensure_indexes_exist w st tenant_id"
    and search: "similarity_search w (st1 (doc_index_name tenant_id)) query 10 = Inr docs"
    and cited: "cite_documents docs = Inr (ctx, sources)"
    and history: "chat_history = snd (get_relevant_history w st1 query tenant_id 3)"
    and p: "p = prompt_format ctx (sources_block sources) chat_history query"
    and broken: "astream w p = map Inr before @ Inl e # rest"
    and response:
      "response = concat (map chunk_content before) @ ''\<newline>\<newline>Sources:\<newline>''
                  @ sources_block sources"
  shows "snd (stream_rag_response w st query tenant_id)
           = \<lparr>prompt_sent = Some p, yielded = map chunk_content before, raised = None\<rparr>
         \<and> fst (stream_rag_response w st query tenant_id)
             = store_chat_history w st1 query response tenant_id
         \<and> (add_documents_error w st1 (chat_history_index_name tenant_id)
               [chat_record query response tenant_id] = None \<longrightarrow>
             fst (stream_rag_response w st query tenant_id)
               = st1(chat_history_index_name tenant_id \<mapsto>
                       (case st1 (chat_history_index_name tenant_id) of
                          None \<Rightarrow> [] | Some ds \<Rightarrow> ds)
                       @ [chat_record query response tenant_id]))
         \<and> metadata (chat_record query response tenant_id)
             = [(''type'', PStr ''chat_history''), (''tenant_id'', PStr tenant_id),
                (''query'', PStr query), (''response'', PStr response)]"
proof -
  have h: "chat_history = history_text w (st1 (chat_history_index_name tenant_id)) query"
    by (simp add: history get_relevant_history_ensured [OF st1])
  have out: "produced (astream w p) = map chunk_content before"
    by (simp add: broken produced_broken)
  have run: "stream_rag_response w st query tenant_id =
          (store_chat_history w st1 query response tenant_id,
           \<lparr>prompt_sent = Some p, yielded = map chunk_content before, raised = None\<rparr>)"
    using out
    by (simp add: stream_rag_response_unfold [OF st1] search cited Let_def h [symmetric]
        p [symmetric] response store_chat_history_ensured [OF st1])
  have written: "store_chat_history w st1 query response tenant_id
               = st1(chat_history_index_name tenant_id \<mapsto>
                       (case st1 (chat_history_index_name tenant_id) of
                          None \<Rightarrow> [] | Some ds \<Rightarrow> ds)
                       @ [chat_record query response tenant_id])"
    if "add_documents_error w st1 (chat_history_index_name tenant_id)
               [chat_record query response tenant_id] = None"
    using that by (simp add: store_chat_history_ensured [OF st1] add_documents_def)
  have "metadata (chat_record query response tenant_id)
             = [(''type'', PStr ''chat_history''), (''tenant_id'', PStr tenant_id),
                (''query'', PStr query), (''response'', PStr response)]"
    by (simp add: chat_record_def)
  with run written show ?thesis
    by simp
qed

theorem stream_failure_keeps_partial_answer_witness:
  "astream sample_world
     (prompt_format ''[1] Introduction'' ''[1] User Guide (page 1)'' no_history ''What is this?'')
     = map Inr [Message ''Par'', Message ''tial''] @ Inl (OtherError ''connection reset'') # []
   \<and> stream_rag_response sample_world sample_store ''What is this?'' ''acme''
       = (sample_store(''chat_history_acme'' \<mapsto>
            [chat_record ''What is this?''
               ''Partial\<newline>\<newline>Sources:\<newline>[1] User Guide (page 1)'' ''acme'']),
          \<lparr>prompt_sent =
             Some (prompt_format ''[1] Introduction'' ''[1] User Guide (page 1)'' no_history
                     ''What is this?''),
           yielded = [''Par'', ''tial''], raised = None\<rparr>)"
proof -
  let ?st1 = "ensure_indexes_exist sample_world sample_store ''acme''"
  have st1: "?st1 = sample_store(''chat_history_acme'' \<mapsto> [])"
    by (simp add: ensure_indexes_exist_eq create_index_if_not_exists_def sample_world_def
        doc_index_name_def chat_history_index_name_def sample_store_def)
  have idx: "?st1 (doc_index_name ''acme'') = Some [first_page_chunk]"
    "?st1 (chat_history_index_name ''acme'') = Some []"
    by (simp_all only: st1)
       (simp_all add: doc_index_name_def chat_history_index_name_def sample_store_def)
  have search: "similarity_search sample_world (?st1 (doc_index_name ''acme'')) ''What is this?'' 10
                  = Inr [first_page_chunk]"
    by (simp only: idx) (simp add: sample_world_def)
  have one: "str_nat (Suc 0) = ''1''" "str_int 1 = ''1''"
    by code_simp+
  have cited: "cite_documents [first_page_chunk]
                 = Inr (''[1] Introduction'', [(''[1]'', ''User Guide (page 1)'')])"
    by (simp add: cite_documents_def numbered_context_def context_entry_def citation_label_def
        source_descriptor_def dict_get_def py_or_def first_page_chunk_def one)
  have history: "snd (get_relevant_history sample_world ?st1 ''What is this?'' ''acme'' 3) = no_history"
    by (simp add: get_relevant_history_ensured [OF refl] history_text_def idx)
       (simp add: sample_world_def)
  have block: "sources_block [(''[1]'', ''User Guide (page 1)'')] = ''[1] User Guide (page 1)''"
    by (simp add: sources_block_def)
  have broken: "astream sample_world p
     = map Inr [Message ''Par'', Message ''tial''] @ Inl (OtherError ''connection reset'') # []" for p
    by (simp add: sample_world_def)
  have accepted: "add_documents_error sample_world st name docs = None" for st name docs
    by (simp add: sample_world_def)
  have resp: "concat (map chunk_content [Message ''Par'', Message ''tial''])
                @ ''\<newline>\<newline>Sources:\<newline>'' @ ''[1] User Guide (page 1)''
              = ''Partial\<newline>\<newline>Sources:\<newline>[1] User Guide (page 1)''"
    by simp
  note run = stream_failure_keeps_partial_answer
    [OF refl search cited refl refl broken refl, unfolded history block resp]
  have content: "(case ?st1 (chat_history_index_name ''acme'') of None \<Rightarrow> [] | Some ds \<Rightarrow> ds) @ [r]
                   = [r]" for r
    by (simp only: idx) simp
  have upd: "?st1(chat_history_index_name ''acme'' \<mapsto> v) = sample_store(''chat_history_acme'' \<mapsto> v)"
    for v
    by (simp only: st1) (simp add: chat_history_index_name_def)
  from run
  have "snd (stream_rag_response sample_world sample_store ''What is this?'' ''acme'')
          = \<lparr>prompt_sent =
               Some (prompt_format ''[1] Introduction'' ''[1] User Guide (page 1)'' no_history
                       ''What is this?''),
             yielded = map chunk_content [Message ''Par'', Message ''tial''], raised = None\<rparr>"
    by (rule conjunct1)
  then have out: "snd (stream_rag_response sample_world sample_store ''What is this?'' ''acme'')
          = \<lparr>prompt_sent =
               Some (prompt_format ''[1] Introduction'' ''[1] User Guide (page 1)'' no_history
                       ''What is this?''),
             yielded = [''Par'', ''tial''], raised = None\<rparr>"
    by simp
  from run [THEN conjunct2, THEN conjunct2, THEN conjunct1] accepted
  have "fst (stream_rag_response sample_world sample_store ''What is this?'' ''acme'')
          = ?st1(chat_history_index_name ''acme'' \<mapsto>
              (case ?st1 (chat_history_index_name ''acme'') of None \<Rightarrow> [] | Some ds \<Rightarrow> ds)
              @ [chat_record ''What is this?''
                   ''Partial\<newline>\<newline>Sources:\<newline>[1] User Guide (page 1)'' ''acme''])"
    by (rule mp)
  then have "fst (stream_rag_response sample_world sample_store ''What is this?'' ''acme'')
          = sample_store(''chat_history_acme'' \<mapsto>
              [chat_record ''What is this?''
                 ''Partial\<newline>\<newline>Sources:\<newline>[1] User Guide (page 1)'' ''acme''])"
    by (simp only: content upd)
  with out broken show ?thesis
    by (simp add: prod_eq_iff)
qed

section \<open>Properties of the ingestion pipeline\<close>






















section \<open>Tenant isolation\<close>











end
